theory Spec2Isabelle
  imports Complex_Main
begin

section \<open>Python values and errors\<close>

text \<open>
  The program is Python.  Its numbers (anchors, radius, spacings, paddings, ratios) are
  modelled as exact reals, so rounding of double precision arithmetic is outside the
  model; \<open>rows\<close> and \<open>columns\<close> are Python integers.  The values that reach
  \<open>dispacth_activation\<close> and the \<open>special\<close> field are dynamically typed; they are the
  constructors of \<open>pyval\<close>.  An activation function takes \<open>(x, y, radius)\<close>.

  \<open>PyStrArray x xs\<close> is a one-dimensional numpy array of strings, given by its first
  element and the remaining ones: \<open>np.array(["tanh", "relu"])\<close> is
  \<open>PyStrArray ''tanh'' [''relu'']\<close>.  It stands for the objects whose comparison with
  \<open>==\<close> does not give a plain truth value.
\<close>

type_synonym act_fun = "real \<Rightarrow> real \<Rightarrow> real \<Rightarrow> real"

datatype pyval =
    PyNone
  | PyBool bool
  | PyNum real
  | PyStr string
  | PyCallable act_fun
  | PyStrArray string "string list"

datatype py_error = TypeError | ValueError

text \<open>Python's \<open>callable(s)\<close>.\<close>

fun callable :: "pyval \<Rightarrow> bool" where
  "callable (PyCallable f) = True"
| "callable _ = False"


text \<open>
  The result of \<open>s == "name"\<close>: an array is compared element by element and gives an
  array of truth values; every other value gives \<open>True\<close> or \<open>False\<close>, and only the string
  of the same characters is equal to a string.
\<close>

datatype eq_result = EqBool bool | EqArray "bool list"

fun py_eq :: "pyval \<Rightarrow> string \<Rightarrow> eq_result" where
  "py_eq (PyStrArray x xs) name = EqArray (map (\<lambda>e. e = name) (x # xs))"
| "py_eq (PyStr s) name = EqBool (s = name)"
| "py_eq v name = EqBool False"

text \<open>
  The truth value an \<open>if\<close> or \<open>elif\<close> takes of such a result: an array of one element
  has the truth value of the element, a longer one raises \<open>ValueError\<close> (``the truth
  value of an array with more than one element is ambiguous'').  \<open>py_eq\<close> gives no
  array without elements.
\<close>

fun py_bool :: "eq_result \<Rightarrow> py_error + bool" where
  "py_bool (EqBool b) = Inr b"
| "py_bool (EqArray [b]) = Inr b"
| "py_bool (EqArray bs) = Inl ValueError"

text \<open>
  Python's truth value of an object, as \<open>not self.special\<close> reads it; for an array as
  above, a string element being true when it is not empty.
\<close>

fun truthy :: "pyval \<Rightarrow> py_error + bool" where
  "truthy PyNone = Inr False"
| "truthy (PyBool b) = Inr b"
| "truthy (PyNum v) = Inr (v \<noteq> 0)"
| "truthy (PyStr s) = Inr (s \<noteq> [])"
| "truthy (PyCallable f) = Inr True"
| "truthy (PyStrArray x []) = Inr (x \<noteq> [])"
| "truthy (PyStrArray x (y # ys)) = Inl ValueError"


section \<open>activations.py\<close>

definition relu :: act_fun where
  "relu x y r = (if x \<le> 0 then 0 - r / 4 else x - r / 4)"

definition sigmoid :: act_fun where
  "sigmoid x y r = r / (1 + exp (- r * 100 * x)) - r / 2"

definition linear :: act_fun where
  "linear x y r = x"

text \<open>
  Modelled from the spec: \<open>numpy.linspace\<close> is a function of the numpy library, which is
  not among the sources.  \<open>linspace start stop num\<close> is the list of \<open>num\<close> samples
  \<open>start + i * step\<close> with \<open>step = (stop - start) / (num - 1)\<close>, the last sample being
  \<open>stop\<close> itself; \<open>make_node_data\<close> calls it with numpy's default \<open>num = 50\<close>.
\<close>

definition linspace :: "real \<Rightarrow> real \<Rightarrow> nat \<Rightarrow> real list" where
  "linspace start stop num =
     (let step = (stop - start) / real (num - 1);
          ys = map (\<lambda>i. real i * step + start) [0..<num]
      in if 1 < num then ys[num - 1 := stop] else ys)"

text \<open>
  \<open>make_node_data\<close>: calling an \<open>activation\<close> that is not callable raises \<open>TypeError\<close>
  at the first sample.
\<close>

definition make_node_data ::
  "real \<Rightarrow> real \<Rightarrow> real \<Rightarrow> pyval \<Rightarrow> py_error + (real list \<times> real list)" where
  "make_node_data x y r act =
     (let X = linspace (x - r) (x + r) 50
      in case act of
           PyCallable f \<Rightarrow> Inr (X, map (\<lambda>xi. y + f (xi - x) y r) X)
         | _ \<Rightarrow> Inl TypeError)"

text \<open>
  \<open>dispacth_activation\<close>: \<open>callable(s)\<close> is tested first; each \<open>elif s == "name"\<close> then
  takes the truth value of the comparison, which raises for an array of several
  elements.
\<close>

definition dispacth_activation :: "pyval \<Rightarrow> py_error + pyval" where
  "dispacth_activation s =
     (if callable s then Inr s
      else case py_bool (py_eq s ''relu'') of
        Inl e \<Rightarrow> Inl e
      | Inr is_relu \<Rightarrow>
          if is_relu then Inr (PyCallable relu)
          else case py_bool (py_eq s ''sigmoid'') of
            Inl e \<Rightarrow> Inl e
          | Inr is_sigmoid \<Rightarrow>
              if is_sigmoid then Inr (PyCallable sigmoid)
              else case py_bool (py_eq s ''linear'') of
                Inl e \<Rightarrow> Inl e
              | Inr is_linear \<Rightarrow>
                  if is_linear then Inr (PyCallable linear)
                  else Inr PyNone)"


section \<open>nnetplot.py: the drawing surface\<close>

text \<open>
  The matplotlib axis is the list of the calls issued on it, in order; colours, line
  widths and z-order are left out.
\<close>

datatype draw_cmd =
    AddCircle "real \<times> real" real
  | PlotCurve "real list" "real list"
  | PlotLine "real list" "real list"
  | Annotate string "real \<times> real"

type_synonym axis = "draw_cmd list"


section \<open>nnetplot.py: Node\<close>

record Node =
  node_x :: real
  node_y :: real
  node_radius :: real
  node_activation :: pyval
  node_special :: pyval

text \<open>The constructor; an exception of \<open>dispacth_activation\<close> leaves it.\<close>

definition Node_init :: "real \<Rightarrow> real \<Rightarrow> real \<Rightarrow> pyval \<Rightarrow> pyval \<Rightarrow> py_error + Node" where
  "Node_init x y r act sp =
     (case dispacth_activation act of
        Inl e \<Rightarrow> Inl e
      | Inr a \<Rightarrow>
          Inr \<lparr> node_x = x, node_y = y, node_radius = r,
                node_activation = a, node_special = sp \<rparr>)"

text \<open>
  \<open>Node.draw\<close>: the circle is added first; unless \<open>special\<close> is truthy the activation curve
  is plotted, which raises if the activation is not callable.  The \<open>elif\<close> branches for
  \<open>"input"\<close> and \<open>"output"\<close> are \<open>pass\<close>.
\<close>

definition Node_draw :: "Node \<Rightarrow> axis \<Rightarrow> py_error + axis" where
  "Node_draw n ax =
     (let ax1 = ax @ [AddCircle (node_x n, node_y n) (node_radius n)]
      in case truthy (node_special n) of
           Inl e \<Rightarrow> Inl e
         | Inr sp \<Rightarrow>
             if \<not> sp then
               (case make_node_data (node_x n) (node_y n) (node_radius n) (node_activation n) of
                  Inl e \<Rightarrow> Inl e
                | Inr (X, Y) \<Rightarrow> Inr (ax1 @ [PlotCurve X Y]))
             else Inr ax1)"


section \<open>nnetplot.py: Layer\<close>

record Layer =
  rows :: int
  columns :: int
  activation_str :: pyval
  activation :: pyval
  special :: pyval
  xanchor :: real
  yanchor :: real
  radius :: real
  vspace :: real
  hspace :: real

text \<open>The constructor; an exception of \<open>dispacth_activation\<close> leaves it.\<close>

definition Layer_init ::
  "int \<Rightarrow> int \<Rightarrow> pyval \<Rightarrow> pyval \<Rightarrow> real \<Rightarrow> real \<Rightarrow> real \<Rightarrow> real \<Rightarrow> real \<Rightarrow> py_error + Layer" where
  "Layer_init rws cls act sp xa ya r vs hs =
     (case dispacth_activation act of
        Inl e \<Rightarrow> Inl e
      | Inr a \<Rightarrow>
          Inr \<lparr> rows = rws, columns = cls, activation_str = act,
                activation = a, special = sp,
                xanchor = xa, yanchor = ya, radius = r, vspace = vs, hspace = hs \<rparr>)"

text \<open>
  The layer that the constructor returns for its default arguments
  (\<open>activation=None\<close>, \<open>special=False\<close>, anchor \<open>(0, 0)\<close>, radius \<open>0.2\<close>, spacings \<open>0.1\<close>).
\<close>

definition Layer_default :: "int \<Rightarrow> int \<Rightarrow> Layer" where
  "Layer_default rws cls =
     \<lparr> rows = rws, columns = cls, activation_str = PyNone,
       activation = PyNone, special = PyBool False,
       xanchor = 0, yanchor = 0, radius = 0.2, vspace = 0.1, hspace = 0.1 \<rparr>"

text \<open>
  \<open>node_centers\<close>: the generator's two nested \<open>for\<close> loops over \<open>range(columns)\<close> and
  \<open>range(rows)\<close>, threading the running \<open>x\<close> and \<open>y\<close>.  \<open>range(n)\<close> runs \<open>nat n\<close> times
  (not at all for \<open>n \<le> 0\<close>).  The inner loop returns the points it yields and the \<open>y\<close> it
  ends with.
\<close>

fun node_centers_rows :: "Layer \<Rightarrow> nat \<Rightarrow> real \<Rightarrow> real \<Rightarrow> (real \<times> real) list \<times> real" where
  "node_centers_rows L 0 x y = ([], y)"
| "node_centers_rows L (Suc n) x y =
     (let (ps, y') = node_centers_rows L n x (y - (2 * radius L + vspace L))
      in ((x, y) # ps, y'))"

fun node_centers_cols :: "Layer \<Rightarrow> nat \<Rightarrow> real \<Rightarrow> real \<Rightarrow> (real \<times> real) list" where
  "node_centers_cols L 0 x y = []"
| "node_centers_cols L (Suc n) x y =
     (let (ps, y1) = node_centers_rows L (nat (rows L)) x y;
          y2 = yanchor L - radius L;
          x2 = x + (2 * radius L + hspace L)
      in ps @ node_centers_cols L n x2 y2)"

definition node_centers :: "Layer \<Rightarrow> (real \<times> real) list" where
  "node_centers L =
     node_centers_cols L (nat (columns L)) (xanchor L + radius L) (yanchor L - radius L)"

definition inbound_node_connections :: "Layer \<Rightarrow> (real \<times> real) list" where
  "inbound_node_connections L = map (\<lambda>(x, y). (x - 0.2 * radius L, y)) (node_centers L)"

definition outbound_node_connections :: "Layer \<Rightarrow> (real \<times> real) list" where
  "outbound_node_connections L = map (\<lambda>(x, y). (x + 0.2 * radius L, y)) (node_centers L)"

text \<open>\<open>rect_coords\<close> returns a dictionary with the keys \<open>xy\<close>, \<open>width\<close> and \<open>height\<close>.\<close>

record rect =
  xy :: "real \<times> real"
  width :: real
  height :: real

definition rect_coords :: "Layer \<Rightarrow> real \<Rightarrow> rect" where
  "rect_coords L pad =
     \<lparr> xy = (xanchor L - pad, yanchor L + pad),
       width = 2 * radius L * of_int (columns L) + 2 * pad + (of_int (columns L) - 1) * hspace L,
       height = - (2 * radius L * of_int (rows L) + 2 * pad + (of_int (rows L) - 1) * vspace L) \<rparr>"

text \<open>
  \<open>draw_nodes\<close>: for every node centre a \<open>Node\<close> is constructed from the layer's fields and
  drawn; an exception of the constructor or of \<open>Node.draw\<close> ends the loop.
\<close>

definition draw_nodes_node :: "Layer \<Rightarrow> real \<times> real \<Rightarrow> py_error + Node" where
  "draw_nodes_node L c = Node_init (fst c) (snd c) (radius L) (activation L) (special L)"

fun draw_nodes_loop :: "Layer \<Rightarrow> (real \<times> real) list \<Rightarrow> axis \<Rightarrow> py_error + axis" where
  "draw_nodes_loop L [] ax = Inr ax"
| "draw_nodes_loop L (c # cs) ax =
     (case draw_nodes_node L c of
        Inl e \<Rightarrow> Inl e
      | Inr node \<Rightarrow>
          (case Node_draw node ax of
             Inl e \<Rightarrow> Inl e
           | Inr ax' \<Rightarrow> draw_nodes_loop L cs ax'))"

definition draw_nodes :: "Layer \<Rightarrow> axis \<Rightarrow> py_error + axis" where
  "draw_nodes L ax = draw_nodes_loop L (node_centers L) ax"

text \<open>
  \<open>annotate_nodes\<close>: \<open>zip\<close> stops at the shorter of its two arguments.
\<close>

fun annotate_nodes_loop :: "(string \<times> (real \<times> real)) list \<Rightarrow> axis \<Rightarrow> axis" where
  "annotate_nodes_loop [] ax = ax"
| "annotate_nodes_loop ((txt, (x, y)) # ps) ax = annotate_nodes_loop ps (ax @ [Annotate txt (x, y)])"

definition annotate_nodes :: "Layer \<Rightarrow> axis \<Rightarrow> string list \<Rightarrow> axis" where
  "annotate_nodes L ax annotations = annotate_nodes_loop (zip annotations (node_centers L)) ax"


section \<open>nnetplot.py: alignment\<close>

text \<open>
  Layers are objects, and the alignment functions assign to a field of their second
  argument.  The two arguments may be the same object, so the layers live in a store
  from references to their current field values, and the functions return the store
  after the assignment.
\<close>

type_synonym ref = nat
type_synonym store = "ref \<Rightarrow> Layer"

definition vertical_align :: "store \<Rightarrow> ref \<Rightarrow> ref \<Rightarrow> real \<Rightarrow> store" where
  "vertical_align s layer0 layer1 ratio =
     (let y0 = yanchor (s layer0);
          h0 = height (rect_coords (s layer0) 0);
          y1 = yanchor (s layer1);
          h1 = height (rect_coords (s layer1) 0)
      in s(layer1 := (s layer1)\<lparr> yanchor := y0 - ratio * (h1 - h0) \<rparr>))"

definition horizontal_align :: "store \<Rightarrow> ref \<Rightarrow> ref \<Rightarrow> real \<Rightarrow> store" where
  "horizontal_align s layer0 layer1 spacing =
     (let x0 = xanchor (s layer0)
      in s(layer1 := (s layer1)\<lparr> xanchor := xanchor (s layer0) + spacing \<rparr>))"


section \<open>nnetplot.py: connectors\<close>

text \<open>
  \<open>connect_nodes_to_nodes\<close>: the outer loop runs over the outbound points of \<open>layer0\<close>; for
  each of them the inner loop runs over the inbound points of \<open>layer1\<close>, produced anew,
  and plots one line.
\<close>

fun connect_inner :: "real \<times> real \<Rightarrow> (real \<times> real) list \<Rightarrow> axis \<Rightarrow> axis" where
  "connect_inner (xout, yout) [] ax = ax"
| "connect_inner (xout, yout) ((xin, yin) # ins) ax =
     connect_inner (xout, yout) ins (ax @ [PlotLine [xout, xin] [yout, yin]])"

fun connect_outer :: "(real \<times> real) list \<Rightarrow> Layer \<Rightarrow> axis \<Rightarrow> axis" where
  "connect_outer [] layer1 ax = ax"
| "connect_outer (out # outs) layer1 ax =
     connect_outer outs layer1 (connect_inner out (inbound_node_connections layer1) ax)"

definition connect_nodes_to_nodes :: "Layer \<Rightarrow> Layer \<Rightarrow> axis \<Rightarrow> axis" where
  "connect_nodes_to_nodes layer0 layer1 ax =
     connect_outer (outbound_node_connections layer0) layer1 ax"


section \<open>Example layers\<close>

text \<open>
  Two layer objects of equal rectangle height: at reference \<open>0\<close> a layer built with the
  constructor's defaults, everywhere else one whose \<open>yanchor\<close> was set to \<open>5\<close>.
\<close>

definition two_layers :: store where
  "two_layers l = (if l = 0 then Layer_default 3 1 else (Layer_default 3 2)\<lparr> yanchor := 5 \<rparr>)"


section \<open>Node centres in closed form\<close>

text \<open>
  The points the inner loop yields, and the whole sequence as the image of the
  column-major enumeration of the index pairs (column, row).
\<close>

lemma node_centers_rows_fst:
  "fst (node_centers_rows L n x y)
     = map (\<lambda>i. (x, y - real i * (2 * radius L + vspace L))) [0..<n]"
proof (induction n arbitrary: y)
  case 0
  show ?case by simp
next
  case (Suc n)
  have "[0..<Suc n] = 0 # map Suc [0..<n]"
    by (simp add: upt_conv_Cons map_Suc_upt del: upt_Suc)
  then show ?case
    using Suc [of "y - (2 * radius L + vspace L)"]
    by (simp add: split_beta algebra_simps del: upt_Suc)
qed

lemma node_centers_cols_product:
  "node_centers_cols L n x (yanchor L - radius L)
     = map (\<lambda>(c, i). (x + real c * (2 * radius L + hspace L),
                        yanchor L - radius L - real i * (2 * radius L + vspace L)))
         (List.product [0..<n] [0..<nat (rows L)])"
proof (induction n arbitrary: x)
  case 0
  show ?case by simp
next
  case (Suc n)
  have upt: "[0..<Suc n] = 0 # map Suc [0..<n]"
    by (simp add: upt_conv_Cons map_Suc_upt del: upt_Suc)
  have prod: "List.product (map Suc [0..<n]) ys = map (\<lambda>(c, i). (Suc c, i)) (List.product [0..<n] ys)"
    for ys :: "nat list"
    by (induction n) (simp_all add: product_concat_map)
  show ?case
    using Suc [of "x + (2 * radius L + hspace L)"]
    by (simp add: upt prod split_beta node_centers_rows_fst algebra_simps o_def del: upt_Suc)
qed

lemma node_centers_product:
  "node_centers L
     = map (\<lambda>(c, i). (xanchor L + radius L + real c * (2 * radius L + hspace L),
                        yanchor L - radius L - real i * (2 * radius L + vspace L)))
         (List.product [0..<nat (columns L)] [0..<nat (rows L)])"
  by (simp add: node_centers_def node_centers_cols_product)

lemma length_node_centers:
  "length (node_centers L) = nat (columns L) * nat (rows L)"
  by (simp add: node_centers_product)

lemma node_centers_nth:
  assumes "i < nat (columns L) * nat (rows L)"
  shows "node_centers L ! i
     = (xanchor L + radius L + real (i div nat (rows L)) * (2 * radius L + hspace L),
        yanchor L - radius L - real (i mod nat (rows L)) * (2 * radius L + vspace L))"
proof -
  have pos: "0 < nat (rows L)"
    using assms by (cases "nat (rows L)") simp_all
  have "i div nat (rows L) < nat (columns L)"
    using assms pos by (simp add: less_mult_imp_div_less)
  moreover have "i mod nat (rows L) < nat (rows L)"
    using pos by simp
  ultimately show ?thesis
    using assms by (simp add: node_centers_product product_nth)
qed


section \<open>Layer.node_centers\<close>

text \<open>
  Claim C1.  For a layer with \<open>rows \<ge> 1\<close> and \<open>columns \<ge> 1\<close>, \<open>node_centers\<close> yields
  exactly \<open>rows * columns\<close> pairs.  The first is \<open>(xanchor + radius, yanchor - radius)\<close>.
  Each next point stays in the column with \<open>y\<close> decreased by \<open>2 * radius + vspace\<close>,
  except at a multiple of \<open>rows\<close>, where a new column starts: \<open>y\<close> is reset to
  \<open>yanchor - radius\<close> and \<open>x\<close> is increased by \<open>2 * radius + hspace\<close>.  So point \<open>i\<close> is
  row \<open>i mod rows\<close> of column \<open>i div rows\<close> (column-major).  With \<open>rows = 3\<close> and
  \<open>columns = 4\<close> there are 12 points and the first three share their \<open>x\<close>.
\<close>

theorem node_centers_column_major:
  assumes "1 \<le> rows L" and "1 \<le> columns L"
  shows "int (length (node_centers L)) = rows L * columns L
    \<and> node_centers L ! 0 = (xanchor L + radius L, yanchor L - radius L)
    \<and> (\<forall>i. Suc i < length (node_centers L) \<longrightarrow>
          node_centers L ! Suc i =
            (if Suc i mod nat (rows L) \<noteq> 0
             then (fst (node_centers L ! i), snd (node_centers L ! i) - (2 * radius L + vspace L))
             else (fst (node_centers L ! i) + (2 * radius L + hspace L), yanchor L - radius L)))
    \<and> (\<forall>i < length (node_centers L).
          node_centers L ! i =
            (xanchor L + radius L + real (i div nat (rows L)) * (2 * radius L + hspace L),
             yanchor L - radius L - real (i mod nat (rows L)) * (2 * radius L + vspace L)))
    \<and> (rows L = 3 \<and> columns L = 4 \<longrightarrow>
          length (node_centers L) = 12
          \<and> fst (node_centers L ! 0) = fst (node_centers L ! 1)
          \<and> fst (node_centers L ! 1) = fst (node_centers L ! 2))"
proof -
  let ?m = "nat (rows L)"
  let ?n = "nat (columns L)"
  have len: "length (node_centers L) = ?n * ?m"
    by (rule length_node_centers)
  have m_pos: "0 < ?m" and n_pos: "0 < ?n"
    using assms by simp_all
  have c_len: "int (length (node_centers L)) = rows L * columns L"
    using assms by (simp add: len nat_mult_distrib [symmetric] mult.commute)
  have c_first: "node_centers L ! 0 = (xanchor L + radius L, yanchor L - radius L)"
    using m_pos n_pos by (simp add: node_centers_nth)
  have c_step: "node_centers L ! Suc i =
            (if Suc i mod ?m \<noteq> 0
             then (fst (node_centers L ! i), snd (node_centers L ! i) - (2 * radius L + vspace L))
             else (fst (node_centers L ! i) + (2 * radius L + hspace L), yanchor L - radius L))"
    if "Suc i < length (node_centers L)" for i
  proof -
    have i1: "Suc i < ?n * ?m" and i0: "i < ?n * ?m"
      using that len by simp_all
    show ?thesis
    proof (cases "Suc i mod ?m = 0")
      case True
      then have "Suc i div ?m = Suc (i div ?m)"
        by (simp add: div_Suc)
      with True show ?thesis
        by (simp add: node_centers_nth [OF i1] node_centers_nth [OF i0] algebra_simps)
    next
      case False
      then have ne: "Suc (i mod ?m) \<noteq> ?m"
        by (auto simp add: mod_Suc)
      have "Suc i div ?m = i div ?m" and "Suc i mod ?m = Suc (i mod ?m)"
        using ne by (simp_all add: div_Suc mod_Suc)
      with False show ?thesis
        by (simp add: node_centers_nth [OF i1] node_centers_nth [OF i0] algebra_simps)
    qed
  qed
  have c_closed: "node_centers L ! i =
            (xanchor L + radius L + real (i div ?m) * (2 * radius L + hspace L),
             yanchor L - radius L - real (i mod ?m) * (2 * radius L + vspace L))"
    if "i < length (node_centers L)" for i
    using that len by (simp add: node_centers_nth)
  have c_ex: "length (node_centers L) = 12
          \<and> fst (node_centers L ! 0) = fst (node_centers L ! 1)
          \<and> fst (node_centers L ! 1) = fst (node_centers L ! 2)"
    if "rows L = 3 \<and> columns L = 4"
    using that by (simp add: len node_centers_nth)
  show ?thesis
    using c_len c_first c_step c_closed c_ex by blast
qed

theorem node_centers_column_major_witness:
  "1 \<le> rows (Layer_default 3 4) \<and> 1 \<le> columns (Layer_default 3 4)
   \<and> rows (Layer_default 3 4) = 3 \<and> columns (Layer_default 3 4) = 4
   \<and> length (node_centers (Layer_default 3 4)) = 12
   \<and> Suc 2 < length (node_centers (Layer_default 3 4))
   \<and> node_centers (Layer_default 3 4) ! 0 = (0.2, - 0.2)
   \<and> node_centers (Layer_default 3 4) ! Suc 2 = (0.7, - 0.2)
   \<and> fst (node_centers (Layer_default 3 4) ! 0) = fst (node_centers (Layer_default 3 4) ! 1)
   \<and> fst (node_centers (Layer_default 3 4) ! 1) = fst (node_centers (Layer_default 3 4) ! 2)"
proof -
  have r: "1 \<le> rows (Layer_default 3 4)" and c: "1 \<le> columns (Layer_default 3 4)"
    and rc: "rows (Layer_default 3 4) = 3 \<and> columns (Layer_default 3 4) = 4"
    by (simp_all add: Layer_default_def Layer_init_def)
  have f: "xanchor (Layer_default 3 4) = 0" "yanchor (Layer_default 3 4) = 0"
    "radius (Layer_default 3 4) = 0.2" "hspace (Layer_default 3 4) = 0.1"
    "vspace (Layer_default 3 4) = 0.1"
    by (simp_all add: Layer_default_def Layer_init_def)
  note t = node_centers_column_major [OF r c]
  from t rc have len: "length (node_centers (Layer_default 3 4)) = 12" by blast
  from t have "node_centers (Layer_default 3 4) ! 0 = (0.2, - 0.2)"
    by (simp add: f)
  moreover from t len have "node_centers (Layer_default 3 4) ! Suc 2 = (0.7, - 0.2)"
    by (simp add: f rc)
  moreover from t rc have "fst (node_centers (Layer_default 3 4) ! 0) = fst (node_centers (Layer_default 3 4) ! 1)
   \<and> fst (node_centers (Layer_default 3 4) ! 1) = fst (node_centers (Layer_default 3 4) ! 2)"
    by blast
  ultimately show ?thesis
    using r c rc len by simp
qed


section \<open>Layer.rect_coords\<close>

text \<open>
  Claim C2.  \<open>rect_coords pad\<close> has top-left corner \<open>(xanchor - pad, yanchor + pad)\<close>, width
  \<open>2 * radius * columns + 2 * pad + (columns - 1) * hspace\<close> and height
  \<open>- (2 * radius * rows + 2 * pad + (rows - 1) * vspace)\<close>.  It is computed from the
  layer's current fields: after \<open>vertical_align\<close> or \<open>horizontal_align\<close> has moved the
  second layer, or after any assignment to the anchor, the corner is the one of the new
  anchor.
\<close>

theorem rect_coords_formula:
  "rect_coords L pad =
     \<lparr> xy = (xanchor L - pad, yanchor L + pad),
       width = 2 * radius L * of_int (columns L) + 2 * pad + (of_int (columns L) - 1) * hspace L,
       height = - (2 * radius L * of_int (rows L) + 2 * pad + (of_int (rows L) - 1) * vspace L) \<rparr>
   \<and> xy (rect_coords (vertical_align s l0 l1 ratio l1) pad)
       = (xanchor (s l1) - pad,
          yanchor (s l0) - ratio * (height (rect_coords (s l1) 0) - height (rect_coords (s l0) 0)) + pad)
   \<and> xy (rect_coords (horizontal_align s l0 l1 spacing l1) pad)
       = (xanchor (s l0) + spacing - pad, yanchor (s l1) + pad)
   \<and> xy (rect_coords ((L\<lparr> xanchor := xa, yanchor := ya \<rparr>)) pad) = (xa - pad, ya + pad)"
  by (simp add: rect_coords_def vertical_align_def horizontal_align_def)


section \<open>vertical_align\<close>

text \<open>
  Claim C3.  After \<open>vertical_align layer0 layer1 ratio\<close> the \<open>yanchor\<close> of \<open>layer1\<close> is
  \<open>yanchor\<close> of \<open>layer0\<close> minus \<open>ratio * (height1 - height0)\<close>, the heights being those of
  the two rectangles (without padding) before the call.  With ratio 0 the tops align:
  \<open>layer1\<close> gets the \<open>yanchor\<close> of \<open>layer0\<close>.  With ratio 0.5 and equal rectangle
  heights the two layers end with equal \<open>yanchor\<close>.
\<close>

theorem vertical_align_offset:
  "yanchor (vertical_align s l0 l1 ratio l1)
     = yanchor (s l0) - ratio * (height (rect_coords (s l1) 0) - height (rect_coords (s l0) 0))
   \<and> yanchor (s l0) - yanchor (vertical_align s l0 l1 ratio l1)
     = ratio * (height (rect_coords (s l1) 0) - height (rect_coords (s l0) 0))
   \<and> yanchor (vertical_align s l0 l1 0 l1) = yanchor (s l0)
   \<and> yanchor (vertical_align s l0 l1 0 l1) = yanchor (vertical_align s l0 l1 0 l0)
   \<and> (height (rect_coords (s l0) 0) = height (rect_coords (s l1) 0) \<longrightarrow>
        yanchor (vertical_align s l0 l1 0.5 l1) = yanchor (s l0)
      \<and> yanchor (vertical_align s l0 l1 0.5 l1) = yanchor (vertical_align s l0 l1 0.5 l0))"
  by (simp add: vertical_align_def)

theorem vertical_align_offset_witness:
  "height (rect_coords (two_layers 0) 0) = height (rect_coords (two_layers 1) 0)
   \<and> yanchor (two_layers 1) = 5
   \<and> yanchor (vertical_align two_layers 0 1 0.5 1) = 0
   \<and> yanchor (vertical_align two_layers 0 1 0.5 0) = 0"
  using vertical_align_offset [of two_layers 0 1 "0.5"]
  by (simp add: two_layers_def rect_coords_def Layer_default_def Layer_init_def)


section \<open>dispacth_activation\<close>




lemma dispacth_activation_result:
  "dispacth_activation s = Inr v \<Longrightarrow> callable v \<or> v = PyNone"
  by (auto simp add: dispacth_activation_def split: if_splits sum.splits)

lemma dispacth_activation_fixed:
  "callable v \<or> v = PyNone \<Longrightarrow> dispacth_activation v = Inr v"
  by (auto simp add: dispacth_activation_def)




text \<open>
  Claim C10.  \<open>dispacth_activation\<close> is idempotent: dispatching what a dispatch returned
  returns it again, and a dispatch that raises raises.  \<open>Layer.draw_nodes\<close> hands the
  activation the layer resolved at construction to \<open>Node\<close>'s constructor, which
  dispatches it again: the constructor returns, and the node's activation is the
  layer's, the dispatch of the layer constructor's argument.
\<close>

theorem dispacth_activation_idempotent:
  "(case dispacth_activation s of Inl e \<Rightarrow> Inl e | Inr v \<Rightarrow> dispacth_activation v)
     = dispacth_activation s
   \<and> (dispacth_activation s = Inr v \<longrightarrow> dispacth_activation v = Inr v)
   \<and> (case Layer_init rws cls s sp xa ya r vs hs of
         Inl e \<Rightarrow> dispacth_activation s = Inl e
       | Inr L \<Rightarrow>
           dispacth_activation s = Inr (activation L)
           \<and> (case draw_nodes_node L c of
                 Inl e \<Rightarrow> False
               | Inr node \<Rightarrow> node_activation node = activation L))"
proof -
  have stay: "dispacth_activation w = Inr w" if "dispacth_activation s = Inr w" for w
    using that by (rule dispacth_activation_fixed [OF dispacth_activation_result])
  have kleisli: "(case dispacth_activation s of Inl e \<Rightarrow> Inl e | Inr v \<Rightarrow> dispacth_activation v)
     = dispacth_activation s"
    using stay by (cases "dispacth_activation s") simp_all
  have layer: "case Layer_init rws cls s sp xa ya r vs hs of
         Inl e \<Rightarrow> dispacth_activation s = Inl e
       | Inr L \<Rightarrow>
           dispacth_activation s = Inr (activation L)
           \<and> (case draw_nodes_node L c of
                 Inl e \<Rightarrow> False
               | Inr node \<Rightarrow> node_activation node = activation L)"
  proof (cases "dispacth_activation s")
    case (Inl e)
    then show ?thesis
      by (simp add: Layer_init_def)
  next
    case (Inr w)
    with stay [OF Inr] show ?thesis
      by (simp add: Layer_init_def draw_nodes_node_def Node_init_def)
  qed
  show ?thesis
    using stay kleisli layer by blast
qed

theorem dispacth_activation_idempotent_witness:
  "dispacth_activation (PyStr ''sigmoid'') = Inr (PyCallable sigmoid)
   \<and> dispacth_activation (PyCallable sigmoid) = Inr (PyCallable sigmoid)
   \<and> (case Layer_init 12 1 (PyStr ''sigmoid'') (PyBool False) 0 0 0.2 0.1 0.1 of
         Inl e \<Rightarrow> False
       | Inr L \<Rightarrow>
           activation L = PyCallable sigmoid
           \<and> (case draw_nodes_node L (0.2, - 0.2) of
                 Inl e \<Rightarrow> False
               | Inr node \<Rightarrow> node_activation node = PyCallable sigmoid))"
proof -
  have d: "dispacth_activation (PyStr ''sigmoid'') = Inr (PyCallable sigmoid)"
    by (simp add: dispacth_activation_def)
  note t = dispacth_activation_idempotent
    [where s = "PyStr ''sigmoid''" and v = "PyCallable sigmoid" and rws = 12 and cls = 1
       and sp = "PyBool False" and xa = 0 and ya = 0 and r = "0.2" and vs = "0.1" and hs = "0.1"
       and c = "(0.2, - 0.2)"]
  from t d have "dispacth_activation (PyCallable sigmoid) = Inr (PyCallable sigmoid)"
    by blast
  moreover from t d have "case Layer_init 12 1 (PyStr ''sigmoid'') (PyBool False) 0 0 0.2 0.1 0.1 of
         Inl e \<Rightarrow> False
       | Inr L \<Rightarrow>
           activation L = PyCallable sigmoid
           \<and> (case draw_nodes_node L (0.2, - 0.2) of
                 Inl e \<Rightarrow> False
               | Inr node \<Rightarrow> node_activation node = PyCallable sigmoid)"
    by (auto split: sum.splits)
  ultimately show ?thesis
    using d by simp
qed

text \<open>The layer with the default arguments is what the constructor returns for them.\<close>

lemma Layer_init_default:
  "Layer_init rws cls PyNone (PyBool False) 0 0 0.2 0.1 0.1 = Inr (Layer_default rws cls)"
  by (simp add: Layer_init_def Layer_default_def dispacth_activation_def)


section \<open>What the alignment functions leave unchanged\<close>

text \<open>
  Claim C9, as stated: after \<open>horizontal_align layer0 layer1 spacing\<close> every field of
  \<open>layer0\<close> is unchanged.  It fails when both arguments are the same layer object: the
  layer anchored at \<open>x = 0\<close>, aligned with itself at spacing 1, ends with \<open>xanchor = 1\<close>.
\<close>

theorem horizontal_align_alias_counterexample:
  "xanchor ((\<lambda>r. Layer_default 1 1) (0::ref)) = 0
   \<and> xanchor (horizontal_align (\<lambda>r. Layer_default 1 1) 0 0 1 0) = 1
   \<and> horizontal_align (\<lambda>r. Layer_default 1 1) 0 0 1 0 \<noteq> (\<lambda>r. Layer_default 1 1) 0"
proof -
  have a: "xanchor (Layer_default 1 1) = 0"
    by (simp add: Layer_default_def Layer_init_def)
  have b: "xanchor (horizontal_align (\<lambda>r. Layer_default 1 1) 0 0 1 0) = 1"
    by (simp add: horizontal_align_def a)
  from a b have "horizontal_align (\<lambda>r. Layer_default 1 1) 0 0 1 0 \<noteq> Layer_default 1 1"
    by auto
  with a b show ?thesis by simp
qed

text \<open>
  Claim C9, amended.  \<open>vertical_align\<close> leaves every field of \<open>layer0\<close> and every field
  of \<open>layer1\<close> except \<open>yanchor\<close> unchanged.  \<open>horizontal_align\<close> leaves every field of
  \<open>layer1\<close> except \<open>xanchor\<close> unchanged, and every field of \<open>layer0\<close> when \<open>layer0\<close> and
  \<open>layer1\<close> are distinct objects.  No layer other than \<open>layer1\<close> is touched.
\<close>

theorem align_frame:
  "vertical_align s l0 l1 ratio l0 = s l0
   \<and> (vertical_align s l0 l1 ratio l1)\<lparr> yanchor := yanchor (s l1) \<rparr> = s l1
   \<and> (horizontal_align s l0 l1 spacing l1)\<lparr> xanchor := xanchor (s l1) \<rparr> = s l1
   \<and> (l0 \<noteq> l1 \<longrightarrow> horizontal_align s l0 l1 spacing l0 = s l0)
   \<and> (r \<noteq> l1 \<longrightarrow> vertical_align s l0 l1 ratio r = s r \<and> horizontal_align s l0 l1 spacing r = s r)"
  by (simp add: vertical_align_def horizontal_align_def)

theorem align_frame_witness:
  "(0::ref) \<noteq> 1
   \<and> horizontal_align two_layers 0 1 1 0 = two_layers 0
   \<and> vertical_align two_layers 0 1 0.5 0 = two_layers 0
   \<and> xanchor (horizontal_align two_layers 0 1 1 1) = 1
   \<and> (horizontal_align two_layers 0 1 1 1)\<lparr> xanchor := xanchor (two_layers 1) \<rparr> = two_layers 1"
  using align_frame [of two_layers 0 1 "0.5" 1 0]
  by (simp add: horizontal_align_def two_layers_def Layer_default_def Layer_init_def)


section \<open>connect_nodes_to_nodes\<close>

lemma connect_inner_append:
  "connect_inner out ins ax
     = ax @ map (\<lambda>inp. PlotLine [fst out, fst inp] [snd out, snd inp]) ins"
  by (induction out ins ax rule: connect_inner.induct) simp_all

lemma connect_outer_append:
  "connect_outer outs layer1 ax
     = ax @ map (\<lambda>(out, inp). PlotLine [fst out, fst inp] [snd out, snd inp])
              (List.product outs (inbound_node_connections layer1))"
proof (induction outs arbitrary: ax)
  case Nil
  show ?case by simp
next
  case (Cons out outs)
  show ?case
    by (simp add: Cons connect_inner_append o_def)
qed

text \<open>
  Claim C4.  \<open>connect_nodes_to_nodes layer0 layer1 axis\<close> plots, after what the axis
  already holds, exactly one line for every pair of the Cartesian product of the
  outbound points of \<open>layer0\<close> and the inbound points of \<open>layer1\<close>, in the order of the
  product: \<open>n0 * n1\<close> lines for layers of \<open>n0\<close> and \<open>n1\<close> nodes, 6 for 2 and 3 nodes.  A
  node centre \<open>(x, y)\<close> has the inbound point \<open>(x - 0.2 * radius, y)\<close> and the outbound
  point \<open>(x + 0.2 * radius, y)\<close>.
\<close>

theorem connect_nodes_to_nodes_product:
  "connect_nodes_to_nodes layer0 layer1 ax
     = ax @ map (\<lambda>((xout, yout), (xin, yin)). PlotLine [xout, xin] [yout, yin])
              (List.product (outbound_node_connections layer0) (inbound_node_connections layer1))
   \<and> length (connect_nodes_to_nodes layer0 layer1 ax)
     = length ax + length (node_centers layer0) * length (node_centers layer1)
   \<and> inbound_node_connections layer1
     = map (\<lambda>(x, y). (x - 0.2 * radius layer1, y)) (node_centers layer1)
   \<and> outbound_node_connections layer0
     = map (\<lambda>(x, y). (x + 0.2 * radius layer0, y)) (node_centers layer0)
   \<and> (length (node_centers layer0) = 2 \<and> length (node_centers layer1) = 3 \<longrightarrow>
        length (connect_nodes_to_nodes layer0 layer1 ax) = length ax + 6)"
proof -
  have eq: "connect_nodes_to_nodes layer0 layer1 ax
     = ax @ map (\<lambda>((xout, yout), (xin, yin)). PlotLine [xout, xin] [yout, yin])
              (List.product (outbound_node_connections layer0) (inbound_node_connections layer1))"
    by (simp add: connect_nodes_to_nodes_def connect_outer_append split_beta)
  have len: "length (connect_nodes_to_nodes layer0 layer1 ax)
     = length ax + length (node_centers layer0) * length (node_centers layer1)"
    by (simp add: eq) (simp add: outbound_node_connections_def inbound_node_connections_def)
  show ?thesis
    using eq len
    by (simp add: outbound_node_connections_def [of layer0] inbound_node_connections_def [of layer1])
qed

theorem connect_nodes_to_nodes_product_witness:
  "length (node_centers (Layer_default 2 1)) = 2
   \<and> length (node_centers (Layer_default 3 1)) = 3
   \<and> length (connect_nodes_to_nodes (Layer_default 2 1) (Layer_default 3 1) []) = 6"
proof -
  have a: "length (node_centers (Layer_default 2 1)) = 2"
    by (simp add: length_node_centers Layer_default_def Layer_init_def)
  have b: "length (node_centers (Layer_default 3 1)) = 3"
    by (simp add: length_node_centers Layer_default_def Layer_init_def)
  show ?thesis
    using connect_nodes_to_nodes_product [of "Layer_default 2 1" "Layer_default 3 1" "[]"] a b
    by simp
qed


section \<open>Signs of the rectangle, empty layers\<close>

text \<open>
  Claim C5, as stated: for radius \<open>> 0\<close> and spacings \<open>\<ge> 0\<close> the height of the rectangle
  is \<open>\<le> 0\<close> for all integer \<open>rows\<close>, and a layer with zero rows has a rectangle of zero
  area.  It fails for the layer with the constructor's defaults, \<open>rows = 0\<close> and
  \<open>columns = 1\<close>: the height is \<open>0.1 > 0\<close> and the area is not 0.
\<close>

theorem rect_sign_counterexample:
  "0 < radius (Layer_default 0 1) \<and> 0 \<le> vspace (Layer_default 0 1) \<and> 0 \<le> hspace (Layer_default 0 1)
   \<and> rows (Layer_default 0 1) = 0
   \<and> \<not> height (rect_coords (Layer_default 0 1) 0) \<le> 0
   \<and> width (rect_coords (Layer_default 0 1) 0) * height (rect_coords (Layer_default 0 1) 0) \<noteq> 0"
  by (simp add: rect_coords_def Layer_default_def Layer_init_def)

lemma rect_extent_sign:
  fixes r v :: real and n :: int
  assumes "0 < r" and "0 \<le> v"
  shows "1 \<le> n \<Longrightarrow> 0 < 2 * r * of_int n + (of_int n - 1) * v"
    and "n \<le> 0 \<Longrightarrow> 2 * r * of_int n + (of_int n - 1) * v \<le> 0"
    and "2 * r * of_int n + (of_int n - 1) * v = 0 \<longleftrightarrow> n = 0 \<and> v = 0"
proof -
  have pos: "0 < 2 * r * of_int n + (of_int n - 1) * v" if "1 \<le> n"
  proof -
    have "(1::real) \<le> of_int n"
      using that by simp
    then have "0 < r * of_int n" and "0 \<le> (of_int n - 1) * v"
      using assms by simp_all
    then show ?thesis by simp
  qed
  have neg: "2 * r * of_int n + (of_int n - 1) * v < 0" if "n \<le> - 1"
  proof -
    have "(of_int n :: real) \<le> - 1"
      using that by (metis of_int_le_iff of_int_minus of_int_1)
    then have "r * of_int n < 0" and "(of_int n - 1) * v \<le> 0"
      using assms by (simp_all add: mult_less_0_iff mult_le_0_iff)
    then show ?thesis by simp
  qed
  show "1 \<le> n \<Longrightarrow> 0 < 2 * r * of_int n + (of_int n - 1) * v"
    by (rule pos)
  show "n \<le> 0 \<Longrightarrow> 2 * r * of_int n + (of_int n - 1) * v \<le> 0"
  proof -
    assume "n \<le> 0"
    then consider "n = 0" | "n \<le> - 1" by linarith
    then show ?thesis
    proof cases
      case 1
      then show ?thesis using assms by simp
    next
      case 2
      then show ?thesis using neg by simp
    qed
  qed
  show "2 * r * of_int n + (of_int n - 1) * v = 0 \<longleftrightarrow> n = 0 \<and> v = 0"
  proof -
    consider "1 \<le> n" | "n = 0" | "n \<le> - 1" by linarith
    then show ?thesis
    proof cases
      case 1
      then show ?thesis using pos by auto
    next
      case 2
      then show ?thesis by simp
    next
      case 3
      then show ?thesis using neg by auto
    qed
  qed
qed

text \<open>
  Claim C5, amended.  For radius \<open>> 0\<close>, spacings \<open>\<ge> 0\<close> and padding \<open>\<ge> 0\<close>: the height is
  \<open>\<le> 0\<close> when \<open>rows \<ge> 1\<close> and the width is \<open>> 0\<close> when \<open>columns \<ge> 1\<close>.  Zero or
  negative \<open>rows\<close> or \<open>columns\<close> give an empty \<open>node_centers\<close> sequence (no error).  The
  rectangle is computed by the same formula for them: without padding the height is
  \<open>\<ge> 0\<close> when \<open>rows \<le> 0\<close>, and the area is zero exactly when \<open>rows = 0\<close> and
  \<open>vspace = 0\<close>, or \<open>columns = 0\<close> and \<open>hspace = 0\<close>.
\<close>

theorem rect_sign_and_empty_layers:
  assumes "0 < radius L" and "0 \<le> vspace L" and "0 \<le> hspace L"
  shows "(0 \<le> pad \<and> 1 \<le> rows L \<longrightarrow> height (rect_coords L pad) \<le> 0)
    \<and> (0 \<le> pad \<and> 1 \<le> columns L \<longrightarrow> 0 < width (rect_coords L pad))
    \<and> (rows L \<le> 0 \<or> columns L \<le> 0 \<longrightarrow> node_centers L = [])
    \<and> (rows L \<le> 0 \<longrightarrow> 0 \<le> height (rect_coords L 0))
    \<and> (width (rect_coords L 0) * height (rect_coords L 0) = 0
         \<longleftrightarrow> (rows L = 0 \<and> vspace L = 0) \<or> (columns L = 0 \<and> hspace L = 0))"
proof -
  note h = rect_extent_sign [OF assms(1) assms(2), of "rows L"]
  note w = rect_extent_sign [OF assms(1) assms(3), of "columns L"]
  have c1: "height (rect_coords L pad) \<le> 0" if "0 \<le> pad \<and> 1 \<le> rows L"
    using that h(1) by (simp add: rect_coords_def)
  have c2: "0 < width (rect_coords L pad)" if "0 \<le> pad \<and> 1 \<le> columns L"
    using that w(1) by (simp add: rect_coords_def)
  have c3: "node_centers L = []" if "rows L \<le> 0 \<or> columns L \<le> 0"
  proof -
    have "length (node_centers L) = 0"
      using that by (auto simp add: length_node_centers)
    then show ?thesis by simp
  qed
  have c4: "0 \<le> height (rect_coords L 0)" if "rows L \<le> 0"
    using that h(2) by (simp add: rect_coords_def)
  have c5: "width (rect_coords L 0) * height (rect_coords L 0) = 0
         \<longleftrightarrow> (rows L = 0 \<and> vspace L = 0) \<or> (columns L = 0 \<and> hspace L = 0)"
    using h(3) w(3) by (auto simp add: rect_coords_def)
  show ?thesis
    using c1 c2 c3 c4 c5 by blast
qed

theorem rect_sign_and_empty_layers_witness:
  "0 < radius (Layer_default 3 4) \<and> 0 \<le> vspace (Layer_default 3 4) \<and> 0 \<le> hspace (Layer_default 3 4)
   \<and> 1 \<le> rows (Layer_default 3 4) \<and> 1 \<le> columns (Layer_default 3 4)
   \<and> height (rect_coords (Layer_default 3 4) 0) \<le> 0
   \<and> 0 < width (rect_coords (Layer_default 3 4) 0)
   \<and> 0 < radius (Layer_default 0 1) \<and> 0 \<le> vspace (Layer_default 0 1) \<and> 0 \<le> hspace (Layer_default 0 1)
   \<and> rows (Layer_default 0 1) \<le> 0
   \<and> node_centers (Layer_default 0 1) = []
   \<and> 0 \<le> height (rect_coords (Layer_default 0 1) 0)"
proof -
  have a: "0 < radius (Layer_default 3 4)" "0 \<le> vspace (Layer_default 3 4)"
    "0 \<le> hspace (Layer_default 3 4)" "1 \<le> rows (Layer_default 3 4)"
    "1 \<le> columns (Layer_default 3 4)"
    by (simp_all add: Layer_default_def Layer_init_def)
  have b: "0 < radius (Layer_default 0 1)" "0 \<le> vspace (Layer_default 0 1)"
    "0 \<le> hspace (Layer_default 0 1)" "rows (Layer_default 0 1) \<le> 0"
    by (simp_all add: Layer_default_def Layer_init_def)
  have "height (rect_coords (Layer_default 3 4) 0) \<le> 0 \<and> 0 < width (rect_coords (Layer_default 3 4) 0)"
    using rect_sign_and_empty_layers [OF a(1) a(2) a(3), of 0] a(4) a(5) by simp
  moreover have "node_centers (Layer_default 0 1) = [] \<and> 0 \<le> height (rect_coords (Layer_default 0 1) 0)"
    using rect_sign_and_empty_layers [OF b(1) b(2) b(3), of 0] b(4) by blast
  ultimately show ?thesis
    using a b by simp
qed


section \<open>make_node_data\<close>

lemma length_linspace: "length (linspace a b num) = num"
  by (simp add: linspace_def Let_def)

lemma linspace_50_nth:
  assumes "i < 50"
  shows "linspace a b 50 ! i = a + real i * ((b - a) / 49)"
proof (cases "i = 49")
  case True
  then show ?thesis
    by (simp add: linspace_def Let_def diff_divide_distrib)
next
  case False
  with assms show ?thesis
    by (simp add: linspace_def Let_def)
qed

lemma linspace_50_strict:
  assumes "a < b" and "i < j" and "j < 50"
  shows "linspace a b 50 ! i < linspace a b 50 ! j"
proof -
  have step: "0 < (b - a) / 49"
    using assms(1) by simp
  have "real i < real j"
    using assms(2) by simp
  then have "real i * ((b - a) / 49) < real j * ((b - a) / 49)"
    using step by (rule mult_strict_right_mono)
  moreover have "i < 50"
    using assms(2,3) by simp
  ultimately show ?thesis
    using assms(3) by (simp add: linspace_50_nth)
qed

text \<open>
  Claim C6.  For a radius \<open>r > 0\<close> and a callable activation \<open>f\<close>,
  \<open>make_node_data x y r f\<close> returns 50 sample positions \<open>X\<close> and 50 values \<open>Y\<close>: \<open>X\<close>
  starts at \<open>x - r\<close>, ends at \<open>x + r\<close>, has the constant step \<open>2 * r / 49\<close> and is strictly
  increasing, and the \<open>i\<close>-th value is \<open>y + f (X ! i - x) y r\<close>.
\<close>

theorem make_node_data_samples:
  assumes "0 < r"
  shows "case make_node_data x y r (PyCallable f) of
           Inl e \<Rightarrow> False
         | Inr (X, Y) \<Rightarrow>
             length X = 50 \<and> length Y = 50
             \<and> X ! 0 = x - r \<and> X ! 49 = x + r
             \<and> (\<forall>i < 49. X ! Suc i - X ! i = 2 * r / 49)
             \<and> (\<forall>i j. i < j \<and> j < 50 \<longrightarrow> X ! i < X ! j)
             \<and> (\<forall>i < 50. Y ! i = y + f (X ! i - x) y r)"
proof -
  let ?X = "linspace (x - r) (x + r) 50"
  let ?Y = "map (\<lambda>xi. y + f (xi - x) y r) ?X"
  have res: "make_node_data x y r (PyCallable f) = Inr (?X, ?Y)"
    by (simp add: make_node_data_def Let_def)
  have lenX: "length ?X = 50"
    by (rule length_linspace)
  have first: "?X ! 0 = x - r"
    by (simp add: linspace_50_nth)
  have last: "?X ! 49 = x + r"
    by (simp add: linspace_50_nth)
  have even: "?X ! Suc i - ?X ! i = 2 * r / 49" if "i < 49" for i
  proof -
    have "Suc i < 50" and "i < 50"
      using that by simp_all
    then show ?thesis
      by (simp add: linspace_50_nth algebra_simps)
  qed
  have mono: "?X ! i < ?X ! j" if "i < j \<and> j < 50" for i j
    using that assms by (simp add: linspace_50_strict)
  have pair: "?Y ! i = y + f (?X ! i - x) y r" if "i < 50" for i
    using that lenX by simp
  show ?thesis
    using lenX first last even mono pair
    by (simp only: res sum.case prod.case length_map) blast
qed

theorem make_node_data_samples_witness:
  "(0::real) < 1
   \<and> (case make_node_data 0 0 1 (PyCallable linear) of
         Inl e \<Rightarrow> False
       | Inr (X, Y) \<Rightarrow> length X = 50 \<and> length Y = 50 \<and> X ! 0 = - 1 \<and> X ! 49 = 1
                        \<and> Y ! 49 = 1)"
proof -
  have pos: "(0::real) < 1"
    by simp
  have l: "\<forall>u. linear u 0 1 = u"
    by (simp add: linear_def)
  show ?thesis
    using make_node_data_samples [OF pos, of 0 0 linear] pos l
    by (auto split: sum.splits prod.splits)
qed


section \<open>Layer.annotate_nodes\<close>

lemma annotate_nodes_loop_append:
  "annotate_nodes_loop ps ax = ax @ map (\<lambda>(txt, c). Annotate txt c) ps"
  by (induction ps ax rule: annotate_nodes_loop.induct) simp_all

text \<open>
  Claim C8, as stated: \<open>annotate_nodes\<close> issues \<open>min (length annotations) (rows * columns)\<close>
  calls for every layer.  It fails for \<open>rows = - 1\<close> and \<open>columns = - 1\<close>: the product is 1,
  the layer has no node, and no call is issued for the one annotation.
\<close>

theorem annotate_nodes_negative_counterexample:
  "annotate_nodes (Layer_default (- 1) (- 1)) [] [''a''] = []
   \<and> min (int (length [''a''])) (rows (Layer_default (- 1) (- 1)) * columns (Layer_default (- 1) (- 1))) = 1
   \<and> int (length (annotate_nodes (Layer_default (- 1) (- 1)) [] [''a'']))
       \<noteq> min (int (length [''a''])) (rows (Layer_default (- 1) (- 1)) * columns (Layer_default (- 1) (- 1)))"
  by (simp add: annotate_nodes_def node_centers_def Layer_default_def Layer_init_def)

text \<open>
  Claim C8, amended.  \<open>annotate_nodes\<close> pairs the annotations with the node centres by
  position and issues, after what the axis already holds, one call per pair: as many as
  the shorter of the two sequences has, the \<open>i\<close>-th placing the \<open>i\<close>-th annotation at the
  \<open>i\<close>-th node centre.  The number of node centres is \<open>max rows 0 * max columns 0\<close>, which
  is \<open>rows * columns\<close> when neither is negative.  There is no failing branch.
\<close>

theorem annotate_nodes_calls:
  "annotate_nodes L ax annotations
     = ax @ map (\<lambda>(txt, c). Annotate txt c) (zip annotations (node_centers L))
   \<and> length (annotate_nodes L ax annotations)
     = length ax + min (length annotations) (nat (rows L) * nat (columns L))
   \<and> (0 \<le> rows L \<and> 0 \<le> columns L \<longrightarrow>
        int (length (annotate_nodes L ax annotations))
          = int (length ax) + min (int (length annotations)) (rows L * columns L))
   \<and> (\<forall>i < min (length annotations) (length (node_centers L)).
        annotate_nodes L ax annotations ! (length ax + i)
          = Annotate (annotations ! i) (node_centers L ! i))"
proof -
  have eq: "annotate_nodes L ax annotations
     = ax @ map (\<lambda>(txt, c). Annotate txt c) (zip annotations (node_centers L))"
    by (simp add: annotate_nodes_def annotate_nodes_loop_append)
  have len: "length (annotate_nodes L ax annotations)
     = length ax + min (length annotations) (nat (rows L) * nat (columns L))"
    by (simp add: eq length_node_centers mult.commute)
  have len_int: "int (length (annotate_nodes L ax annotations))
          = int (length ax) + min (int (length annotations)) (rows L * columns L)"
    if "0 \<le> rows L \<and> 0 \<le> columns L"
  proof -
    have e: "int (nat (rows L) * nat (columns L)) = rows L * columns L"
      using that by simp
    have "int (length (annotate_nodes L ax annotations))
          = int (length ax) + min (int (length annotations)) (int (nat (rows L) * nat (columns L)))"
      by (simp only: len of_nat_add of_nat_min)
    then show ?thesis
      by (simp only: e)
  qed
  have nth: "annotate_nodes L ax annotations ! (length ax + i)
          = Annotate (annotations ! i) (node_centers L ! i)"
    if "i < min (length annotations) (length (node_centers L))" for i
    using that by (simp add: eq nth_append)
  show ?thesis
    using eq len len_int nth by blast
qed

theorem annotate_nodes_calls_witness:
  "0 \<le> rows (Layer_default 2 1) \<and> 0 \<le> columns (Layer_default 2 1)
   \<and> length (annotate_nodes (Layer_default 2 1) [] [''a'', ''b'', ''c'']) = 2
   \<and> (0::nat) < min (length [''a'', ''b'', ''c'']) (length (node_centers (Layer_default 2 1)))
   \<and> annotate_nodes (Layer_default 2 1) [] [''a'', ''b'', ''c''] ! 0
       = Annotate ''a'' (node_centers (Layer_default 2 1) ! 0)"
proof -
  have rc: "rows (Layer_default 2 1) = 2" "columns (Layer_default 2 1) = 1"
    by (simp_all add: Layer_default_def Layer_init_def)
  have n: "length (node_centers (Layer_default 2 1)) = 2"
    by (simp add: length_node_centers rc)
  note t = annotate_nodes_calls [of "Layer_default 2 1" "[]" "[''a'', ''b'', ''c'']"]
  from t have "length (annotate_nodes (Layer_default 2 1) [] [''a'', ''b'', ''c''])
      = length ([]::axis) + min (length [''a'', ''b'', ''c''])
          (nat (rows (Layer_default 2 1)) * nat (columns (Layer_default 2 1)))"
    by blast
  then have "length (annotate_nodes (Layer_default 2 1) [] [''a'', ''b'', ''c'']) = 2"
    by (simp add: rc)
  moreover have pos: "(0::nat) < min (length [''a'', ''b'', ''c'']) (length (node_centers (Layer_default 2 1)))"
    by (simp add: n)
  moreover from t pos have "annotate_nodes (Layer_default 2 1) [] [''a'', ''b'', ''c''] ! (length ([]::axis) + 0)
       = Annotate ([''a'', ''b'', ''c''] ! 0) (node_centers (Layer_default 2 1) ! 0)"
    by blast
  then have "annotate_nodes (Layer_default 2 1) [] [''a'', ''b'', ''c''] ! 0
       = Annotate ''a'' (node_centers (Layer_default 2 1) ! 0)"
    by simp
  ultimately show ?thesis
    using rc by simp
qed

end
